theory Spec2Isabelle
  imports Complex_Main
begin

section \<open>Python values the component computes with\<close>

text \<open>
  The component is \<^verbatim>\<open>custom_components/remote/harmony.py\<close>. Identifiers (activity and
  device names or IDs) are Python \<^verbatim>\<open>str\<close> values. They are modelled as \<^typ>\<open>string\<close>,
  each \<^typ>\<open>char\<close> read as the code point of the same number (U+0000 to U+00FF), so that
  \<^verbatim>\<open>str.isdigit\<close>, \<^verbatim>\<open>str.strip\<close> and \<^verbatim>\<open>int\<close> can be written out on that range.
  A Python value that may be \<^verbatim>\<open>None\<close> is an \<^typ>\<open>'a option\<close>. Delays are Python floats,
  only ever compared with zero; they are modelled as \<^typ>\<open>real\<close>.
\<close>

text \<open>Exceptions that leave a function of the component.\<close>

datatype exn = TypeError | ValueError | AttributeError | PlatformNotReady

text \<open>
  \<^verbatim>\<open>str.isdigit\<close>: every character is a digit and there is at least one. On the
  modelled range the digits are \<^verbatim>\<open>0\<close> to \<^verbatim>\<open>9\<close> and the superscripts U+00B2, U+00B3 and
  U+00B9.
\<close>

definition decimal_char :: "char \<Rightarrow> bool" where
  "decimal_char ch = (48 \<le> (of_char ch :: nat) \<and> (of_char ch :: nat) \<le> 57)"

definition isdigit_char :: "char \<Rightarrow> bool" where
  "isdigit_char ch =
     (decimal_char ch \<or> (of_char ch :: nat) = 178 \<or> (of_char ch :: nat) = 179
      \<or> (of_char ch :: nat) = 185)"

definition isdigit :: "string \<Rightarrow> bool" where
  "isdigit s = (s \<noteq> [] \<and> list_all isdigit_char s)"

text \<open>
  \<^verbatim>\<open>int(s)\<close> on the strings the component passes to it: those for which
  \<^verbatim>\<open>s.isdigit() or s == '-1'\<close> holds. A string of decimal digits is read in base ten,
  \<^verbatim>\<open>'-1'\<close> is minus one, and a string with a superscript digit raises
  \<^verbatim>\<open>ValueError\<close> (the result \<^term>\<open>None\<close>).
\<close>

definition py_int :: "string \<Rightarrow> int option" where
  "py_int s =
     (if s = ''-1'' then Some (- 1)
      else if s \<noteq> [] \<and> list_all decimal_char s
      then Some (foldl (\<lambda>acc ch. 10 * acc + (int (of_char ch) - 48)) 0 s)
      else None)"

text \<open>
  \<^verbatim>\<open>str.strip()\<close> removes leading and trailing whitespace: on the modelled range the
  characters U+0009 to U+000D, U+001C to U+0020, U+0085 and U+00A0.
\<close>

definition isspace_char :: "char \<Rightarrow> bool" where
  "isspace_char ch =
     ((9 \<le> (of_char ch :: nat) \<and> (of_char ch :: nat) \<le> 13)
      \<or> (28 \<le> (of_char ch :: nat) \<and> (of_char ch :: nat) \<le> 32)
      \<or> (of_char ch :: nat) = 133 \<or> (of_char ch :: nat) = 160)"

definition strip :: "string \<Rightarrow> string" where
  "strip s = rev (dropWhile isspace_char (rev (dropWhile isspace_char s)))"

text \<open>Truth value of a name that may be \<^verbatim>\<open>None\<close>: neither \<^verbatim>\<open>None\<close> nor empty.\<close>

definition truthy :: "string option \<Rightarrow> bool" where
  "truthy v = (case v of None \<Rightarrow> False | Some s \<Rightarrow> s \<noteq> [])"

section \<open>The hub client\<close>

text \<open>
  An ID handed to the hub client is either the caller's own string, passed on as it
  came, or the ID the client's name lookup returned.
\<close>

datatype ident = Raw string | Hub int

text \<open>
  One entry of the list handed to \<^verbatim>\<open>send_commands\<close>: a
  \<^verbatim>\<open>SendCommandDevice(device, command, delay)\<close> or a bare float, a pause.
\<close>

datatype step = SendCommandDevice string string real | Delay real

text \<open>
  Modelled from the spec: the result type of \<^verbatim>\<open>send_commands\<close> belongs to the
  \<^verbatim>\<open>aioharmony\<close> library, which is not part of the repository. The component reads
  \<^verbatim>\<open>result.command.command\<close>, \<^verbatim>\<open>.device\<close>, \<^verbatim>\<open>.code\<close> and \<^verbatim>\<open>.msg\<close>; the spec
  calls the code a result code, zero for success.
\<close>

record command_result =
  res_command :: string
  res_device :: string
  res_code :: int
  res_msg :: string

text \<open>
  The client as the component sees it at one moment: its four lookups, the current
  activity as an (id, name) pair, the configuration (\<^verbatim>\<open>json_config\<close>, held here as the
  text \<^verbatim>\<open>json.dump(..., sort_keys=True, indent=4)\<close> writes for it), and the list
  \<^verbatim>\<open>send_commands\<close> answers with. The lookups are the library's; nothing is assumed of
  them.
\<close>

record client =
  get_activity_name :: "int \<Rightarrow> string option"
  get_activity_id :: "string \<Rightarrow> int option"
  get_device_name :: "int \<Rightarrow> string option"
  get_device_id :: "string \<Rightarrow> int option"
  current_activity :: "int option \<times> string option"
  json_config :: string
  send_commands :: "step list \<Rightarrow> command_result list"

text \<open>Calls the component makes on the client that change the hub.\<close>

datatype adapter_call = StartActivity ident | PowerOff | SendCommands "step list"

section \<open>The remote and its surroundings\<close>

text \<open>
  The fields of a \<^verbatim>\<open>HarmonyRemote\<close>; \<^verbatim>\<open>self._x\<close> is \<open>self_x\<close>. Name, host and port
  come from \<^verbatim>\<open>dict.get\<close> and can be \<^verbatim>\<open>None\<close>.
\<close>

record harmony_remote =
  self_name :: "string option"
  self_host :: "string option"
  self_port :: "int option"
  self_state :: "bool option"
  self_current_activity :: "string option"
  self_default_activity :: "string option"
  self_config_path :: string
  self_delay_secs :: "real option"
  self_available :: bool

text \<open>Messages logged at warning or error level (debug messages are left out).\<close>

datatype log_record =
    MissingDevice
  | DeviceInvalid string
  | ActivityInvalid string
  | NoActivitySpecified
  | CommandFailed string string int string
  | UnableToWrite string string

text \<open>
  What the entity reports when the state machine reads it: \<^verbatim>\<open>available\<close>,
  \<^verbatim>\<open>is_on\<close> and the \<^verbatim>\<open>current_activity\<close> attribute.
\<close>

record ha_state =
  st_available :: bool
  st_is_on :: bool
  st_current_activity :: "string option"

text \<open>
  How one \<^verbatim>\<open>open(path, 'w+')\<close> followed by \<^verbatim>\<open>json.dump\<close> ends: it completes, the
  \<^verbatim>\<open>open\<close> raises \<^verbatim>\<open>IOError\<close>, or the write raises it after some characters.
\<close>

datatype io_outcome = Completes | OpenFails string | WriteFails nat string

text \<open>
  The remote together with the effects it has had: the calls made on the client, the
  log, the state updates scheduled with \<^verbatim>\<open>schedule_update_ha_state\<close> and not yet run,
  the states written so far, the attempts to write the configuration file, the file's
  content (\<^term>\<open>None\<close> when there is no file), and the number of \<^verbatim>\<open>got_disconnected\<close>
  coroutines suspended in \<^verbatim>\<open>asyncio.sleep(10)\<close>.
\<close>

record remote = harmony_remote +
  adapter_calls :: "adapter_call list"
  logged :: "log_record list"
  update_jobs :: nat
  ha_states :: "ha_state list"
  writes :: "(string \<times> io_outcome) list"
  config_file :: "string option"
  sleepers :: nat

text \<open>
  \<^verbatim>\<open>HarmonyRemote.__init__\<close>. The client's constructor is the library's: whether it
  returns or raises is given by the first argument.
\<close>

datatype ctor_outcome = Built | Raised exn

definition HarmonyRemote_init ::
  "ctor_outcome \<Rightarrow> string option \<Rightarrow> string option \<Rightarrow> int option \<Rightarrow> string option \<Rightarrow> string
     \<Rightarrow> real option \<Rightarrow> exn + harmony_remote" where
  "HarmonyRemote_init harmony_client name host port activity out_path delay_secs =
     (case harmony_client of
        Raised e \<Rightarrow> Inl e
      | Built \<Rightarrow>
          Inr \<lparr> self_name = name, self_host = host, self_port = port, self_state = None,
                self_current_activity = None, self_default_activity = activity,
                self_config_path = out_path, self_delay_secs = delay_secs,
                self_available = True \<rparr>)"

text \<open>The properties \<^verbatim>\<open>is_on\<close> and \<^verbatim>\<open>available\<close>.\<close>

definition is_on :: "'a harmony_remote_scheme \<Rightarrow> bool" where
  "is_on self = (self_current_activity self \<notin> set [None, Some ''PowerOff''])"

definition available :: "'a harmony_remote_scheme \<Rightarrow> bool" where
  "available self = self_available self"

section \<open>State updates and persistence\<close>

text \<open>
  \<^verbatim>\<open>schedule_update_ha_state()\<close> queues a job on the event loop; the job reads the
  entity when the loop runs it, after the callback that queued it has returned.
\<close>

definition schedule_update_ha_state :: "remote \<Rightarrow> remote" where
  "schedule_update_ha_state self = self\<lparr>update_jobs := update_jobs self + 1\<rparr>"



text \<open>
  \<^verbatim>\<open>write_config_file\<close>: one \<^verbatim>\<open>open(..., 'w+')\<close> and \<^verbatim>\<open>json.dump\<close> of the client's
  configuration; an \<^verbatim>\<open>IOError\<close> is logged and nothing else is done. Opening with
  \<^verbatim>\<open>'w+'\<close> empties the file, so a write that fails leaves the characters written so far.
\<close>

definition write_config_file :: "client \<Rightarrow> io_outcome \<Rightarrow> remote \<Rightarrow> remote" where
  "write_config_file c io self =
     (let self1 = self\<lparr>writes := writes self @ [(json_config c, io)]\<rparr> in
      case io of
        Completes \<Rightarrow> self1\<lparr>config_file := Some (json_config c)\<rparr>
      | OpenFails exc \<Rightarrow>
          self1\<lparr>logged := logged self1 @ [UnableToWrite (self_config_path self1) exc]\<rparr>
      | WriteFails n exc \<Rightarrow>
          self1\<lparr>config_file := Some (take n (json_config c)),
                logged := logged self1 @ [UnableToWrite (self_config_path self1) exc]\<rparr>)"

text \<open>\<^verbatim>\<open>new_activity\<close>, the client's callback for a change of activity.\<close>

definition new_activity :: "int option \<times> string option \<Rightarrow> remote \<Rightarrow> remote" where
  "new_activity activity_info self =
     (case activity_info of
        (activity_id, activity_name) \<Rightarrow>
          schedule_update_ha_state
            (self\<lparr>self_current_activity := activity_name,
                  self_state := Some (activity_name \<noteq> Some ''PowerOff'')\<rparr>))"

text \<open>
  \<^verbatim>\<open>new_config\<close>, the client's callback for a changed configuration. Its argument is
  not used: the activity and the configuration are read from the client.
\<close>

definition new_config :: "client \<Rightarrow> io_outcome \<Rightarrow> remote \<Rightarrow> remote" where
  "new_config c io self =
     (let self1 = new_activity (current_activity c) self;
          self2 = self1\<lparr>self_current_activity := snd (current_activity c)\<rparr>;
          self3 = self2\<lparr>self_state := Some (self_current_activity self2 \<noteq> Some ''PowerOff'')\<rparr>;
          self4 = schedule_update_ha_state self3
      in write_config_file c io self4)"

section \<open>Connection callbacks\<close>

text \<open>\<^verbatim>\<open>got_connected\<close>.\<close>

definition got_connected :: "client \<Rightarrow> io_outcome \<Rightarrow> remote \<Rightarrow> remote" where
  "got_connected c io self =
     (let self1 = (if \<not> self_available self then new_config c io self else self)
      in self1\<lparr>self_available := True\<rparr>)"









section \<open>Turning on and off\<close>

text \<open>
  Lines 267 to 276 of \<^verbatim>\<open>async_turn_on\<close>: the ID for a non-empty \<^verbatim>\<open>activity\<close>.
  \<^verbatim>\<open>int(activity)\<close> can raise \<^verbatim>\<open>ValueError\<close>.
\<close>

definition find_activity_id :: "client \<Rightarrow> string \<Rightarrow> exn + ident option" where
  "find_activity_id c activity =
     (if isdigit activity \<or> activity = ''-1'' then
        (case py_int activity of
           None \<Rightarrow> Inl ValueError
         | Some n \<Rightarrow>
             Inr (if truthy (get_activity_name c n) then Some (Raw activity)
                  else map_option Hub (get_activity_id c (strip activity))))
      else Inr (map_option Hub (get_activity_id c (strip activity))))"

text \<open>
  \<^verbatim>\<open>async_turn_on\<close>; the argument is the \<^verbatim>\<open>activity\<close> keyword, \<^term>\<open>None\<close> when it
  is not given.
\<close>

definition async_turn_on :: "client \<Rightarrow> string option \<Rightarrow> remote \<Rightarrow> exn + remote" where
  "async_turn_on c kw_activity self =
     (case (case kw_activity of None \<Rightarrow> self_default_activity self | Some a \<Rightarrow> Some a) of
        None \<Rightarrow> Inr (self\<lparr>logged := logged self @ [NoActivitySpecified]\<rparr>)
      | Some activity \<Rightarrow>
          if activity = [] then Inr (self\<lparr>logged := logged self @ [NoActivitySpecified]\<rparr>)
          else
            (case find_activity_id c activity of
               Inl e \<Rightarrow> Inl e
             | Inr None \<Rightarrow> Inr (self\<lparr>logged := logged self @ [ActivityInvalid activity]\<rparr>)
             | Inr (Some activity_id) \<Rightarrow>
                 Inr (self\<lparr>adapter_calls := adapter_calls self @ [StartActivity activity_id],
                           self_state := Some True\<rparr>)))"

text \<open>\<^verbatim>\<open>async_turn_off\<close>.\<close>

definition async_turn_off :: "remote \<Rightarrow> remote" where
  "async_turn_off self = self\<lparr>adapter_calls := adapter_calls self @ [PowerOff]\<rparr>"

section \<open>Sending commands\<close>

text \<open>Lines 304 to 314 of \<^verbatim>\<open>async_send_command\<close>: the ID for \<^verbatim>\<open>device\<close>.\<close>

definition find_device_id :: "client \<Rightarrow> string \<Rightarrow> exn + ident option" where
  "find_device_id c device =
     (if isdigit device then
        (case py_int device of
           None \<Rightarrow> Inl ValueError
         | Some n \<Rightarrow>
             Inr (if truthy (get_device_name c n) then Some (Raw device)
                  else map_option Hub (get_device_id c (strip device))))
      else Inr (map_option Hub (get_device_id c (strip device))))"

text \<open>
  The two loops of lines 324 to 334. The inner loop appends, for each command, a
  \<^verbatim>\<open>SendCommandDevice\<close> for the \<^verbatim>\<open>device\<close> string as given, and a pause when
  \<^verbatim>\<open>delay_secs > 0\<close>; comparing \<^verbatim>\<open>None\<close> with zero raises \<^verbatim>\<open>TypeError\<close>.
\<close>

primrec command_loop ::
  "string \<Rightarrow> real option \<Rightarrow> string list \<Rightarrow> step list \<Rightarrow> exn + step list" where
  "command_loop device delay_secs [] snd_cmnd_list = Inr snd_cmnd_list"
| "command_loop device delay_secs (single_command # rest) snd_cmnd_list =
     (case delay_secs of
        None \<Rightarrow> Inl TypeError
      | Some d \<Rightarrow>
          command_loop device delay_secs rest
            (snd_cmnd_list @ [SendCommandDevice device single_command 0]
               @ (if d > 0 then [Delay d] else [])))"

primrec repeat_loop ::
  "nat \<Rightarrow> string \<Rightarrow> real option \<Rightarrow> string list \<Rightarrow> step list \<Rightarrow> exn + step list" where
  "repeat_loop 0 device delay_secs command snd_cmnd_list = Inr snd_cmnd_list"
| "repeat_loop (Suc k) device delay_secs command snd_cmnd_list =
     (case command_loop device delay_secs command snd_cmnd_list of
        Inl e \<Rightarrow> Inl e
      | Inr snd_cmnd_list1 \<Rightarrow> repeat_loop k device delay_secs command snd_cmnd_list1)"

text \<open>The keyword arguments of \<^verbatim>\<open>async_send_command\<close>, each \<^term>\<open>None\<close> when not given.\<close>

record send_kwargs =
  kw_device :: "string option"
  kw_num_repeats :: "int option"
  kw_delay_secs :: "real option"

definition failed_warning :: "command_result \<Rightarrow> log_record" where
  "failed_warning result =
     CommandFailed (res_command result) (res_device result) (res_code result) (res_msg result)"

text \<open>
  \<^verbatim>\<open>async_send_command\<close>. \<^verbatim>\<open>range(num_repeats)\<close> raises \<^verbatim>\<open>TypeError\<close> for
  \<^verbatim>\<open>None\<close> and is empty for a count below one.
\<close>

definition async_send_command ::
  "client \<Rightarrow> string list \<Rightarrow> send_kwargs \<Rightarrow> remote \<Rightarrow> exn + remote" where
  "async_send_command c command kwargs self =
     (case kw_device kwargs of
        None \<Rightarrow> Inr (self\<lparr>logged := logged self @ [MissingDevice]\<rparr>)
      | Some device \<Rightarrow>
          (case find_device_id c device of
             Inl e \<Rightarrow> Inl e
           | Inr None \<Rightarrow> Inr (self\<lparr>logged := logged self @ [DeviceInvalid device]\<rparr>)
           | Inr (Some device_id) \<Rightarrow>
               (let delay_secs =
                      (case kw_delay_secs kwargs of None \<Rightarrow> self_delay_secs self
                       | Some d \<Rightarrow> Some d)
                in case kw_num_repeats kwargs of
                     None \<Rightarrow> Inl TypeError
                   | Some num_repeats \<Rightarrow>
                       (case repeat_loop (nat num_repeats) device delay_secs command [] of
                          Inl e \<Rightarrow> Inl e
                        | Inr snd_cmnd_list \<Rightarrow>
                            Inr (self\<lparr>adapter_calls :=
                                        adapter_calls self @ [SendCommands snd_cmnd_list],
                                      logged :=
                                        logged self
                                          @ map failed_warning (send_commands c snd_cmnd_list)\<rparr>)))))"

section \<open>Setting up the platform\<close>

text \<open>
  A configuration or discovery dictionary, read with \<^verbatim>\<open>dict.get\<close>: each key is
  \<^term>\<open>None\<close> when absent. A dictionary is true when it is not empty.
\<close>

record config =
  conf_name :: "string option"
  conf_host :: "string option"
  conf_port :: "int option"
  conf_activity :: "string option"
  conf_delay_secs :: "real option"

definition nonempty :: "config \<Rightarrow> bool" where
  "nonempty d =
     (\<not> (conf_name d = None \<and> conf_host d = None \<and> conf_port d = None
         \<and> conf_activity d = None \<and> conf_delay_secs d = None))"

definition DEFAULT_PORT :: int where
  "DEFAULT_PORT = 8088"

text \<open>
  What the platform keeps: \<^verbatim>\<open>hass.data[CONF_DEVICE_CACHE]\<close> (\<^term>\<open>None\<close> while the key
  is absent), the module's list \<^verbatim>\<open>DEVICES\<close>, the entities handed to
  \<^verbatim>\<open>async_add_entities\<close>, and how often \<^verbatim>\<open>register_services\<close> ran.
\<close>

record platform =
  device_cache :: "config list option"
  DEVICES :: "harmony_remote list"
  added_entities :: "harmony_remote list"
  registered_services :: nat

text \<open>
  Lines 65 to 79: the activity, delay and port for a discovered hub, taken from the
  cached configuration of the same name when there is one.
\<close>

definition discovery_override ::
  "real \<Rightarrow> config list \<Rightarrow> config \<Rightarrow> string option \<times> real option \<times> int option" where
  "discovery_override DEFAULT_DELAY_SECS cache discovery_info =
     (case List.find (\<lambda>c. conf_name c = conf_name discovery_info) cache of
        None \<Rightarrow> (None, Some DEFAULT_DELAY_SECS, Some DEFAULT_PORT)
      | Some override \<Rightarrow>
          if nonempty override then
            (conf_activity override, conf_delay_secs override,
             (case conf_port override of None \<Rightarrow> Some DEFAULT_PORT | Some p \<Rightarrow> Some p))
          else (None, Some DEFAULT_DELAY_SECS, Some DEFAULT_PORT))"

text \<open>The (host, port) pairs of the remotes in \<^verbatim>\<open>DEVICES\<close>, line 82.\<close>

definition known_hosts :: "harmony_remote list \<Rightarrow> (string option \<times> int option) list" where
  "known_hosts devices = map (\<lambda>h. (self_host h, self_port h)) devices"

text \<open>
  Lines 97 to 110: the remote is constructed, appended to \<^verbatim>\<open>DEVICES\<close>, added as an
  entity, and the services are registered. The file name comes from the framework
  (\<^verbatim>\<open>hass.config.path\<close> and \<^verbatim>\<open>slugify\<close>), which can raise.
\<close>

definition load_platform ::
  "ctor_outcome \<Rightarrow> (string option \<Rightarrow> exn + string) \<Rightarrow> platform
     \<Rightarrow> string option \<times> string option \<times> int option \<Rightarrow> string option \<Rightarrow> real option
     \<Rightarrow> exn + platform" where
  "load_platform harmony_client conf_file p host activity delay_secs =
     (case host of
        (name, address, port) \<Rightarrow>
          (case conf_file name of
             Inl e \<Rightarrow> Inl e
           | Inr harmony_conf_file \<Rightarrow>
               (case HarmonyRemote_init harmony_client name address port activity
                       harmony_conf_file delay_secs of
                  Inl e \<Rightarrow>
                    Inl (if e = ValueError \<or> e = AttributeError then PlatformNotReady else e)
                | Inr device \<Rightarrow>
                    Inr (p\<lparr>DEVICES := DEVICES p @ [device],
                           added_entities := added_entities p @ [device],
                           registered_services := registered_services p + 1\<rparr>))))"

text \<open>
  \<^verbatim>\<open>async_setup_platform\<close>. \<^verbatim>\<open>DEFAULT_DELAY_SECS\<close> is the framework's constant, a
  parameter here; \<^verbatim>\<open>discovery_info\<close> is \<^term>\<open>None\<close> or a dictionary.
\<close>

definition async_setup_platform ::
  "real \<Rightarrow> ctor_outcome \<Rightarrow> (string option \<Rightarrow> exn + string) \<Rightarrow> platform \<Rightarrow> config
     \<Rightarrow> config option \<Rightarrow> exn + platform" where
  "async_setup_platform DEFAULT_DELAY_SECS harmony_client conf_file p0 config discovery_info =
     (let cache = (case device_cache p0 of None \<Rightarrow> [] | Some cs \<Rightarrow> cs);
          p = p0\<lparr>device_cache := Some cache\<rparr>
      in if (case discovery_info of None \<Rightarrow> False | Some d \<Rightarrow> nonempty d) then
           (case discovery_info of
              None \<Rightarrow> Inr p
            | Some d \<Rightarrow>
                (case discovery_override DEFAULT_DELAY_SECS cache d of
                   (activity, delay_secs, port) \<Rightarrow>
                     if (conf_host d, port) \<in> set (known_hosts (DEVICES p)) then Inr p
                     else load_platform harmony_client conf_file p
                            (conf_name d, conf_host d, port) activity delay_secs))
         else if conf_host config \<noteq> None then
           load_platform harmony_client conf_file p
             (conf_name config, conf_host config, conf_port config)
             (conf_activity config) (conf_delay_secs config)
         else Inr (p\<lparr>device_cache := Some (cache @ [config])\<rparr>))"

section \<open>Example values\<close>

text \<open>
  A hub with one activity besides \<^verbatim>\<open>PowerOff\<close> and one device, whose
  \<^verbatim>\<open>send_commands\<close> reports nothing; and a remote as the constructor leaves it, with no
  effects yet.
\<close>

definition example_client :: client where
  "example_client =
     \<lparr> get_activity_name =
         (\<lambda>n. if n = 101 then Some ''Watch TV'' else if n = - 1 then Some ''PowerOff''
               else None),
       get_activity_id =
         (\<lambda>s. if s = ''Watch TV'' then Some 101 else if s = ''PowerOff'' then Some (- 1)
               else None),
       get_device_name = (\<lambda>n. if n = 42 then Some ''TV'' else None),
       get_device_id = (\<lambda>s. if s = ''TV'' then Some 42 else None),
       current_activity = (Some 101, Some ''Watch TV''),
       json_config = ''{}'',
       send_commands = (\<lambda>steps. []) \<rparr>"

definition example_remote :: remote where
  "example_remote =
     \<lparr> self_name = Some ''Living Room'', self_host = Some ''192.168.1.20'',
       self_port = Some 8088, self_state = None, self_current_activity = None,
       self_default_activity = None, self_config_path = ''harmony_living_room.conf'',
       self_delay_secs = Some (2 / 5), self_available = True,
       adapter_calls = [], logged = [], update_jobs = 0, ha_states = [], writes = [],
       config_file = None, sleepers = 0 \<rparr>"


text \<open>A client whose configuration is loaded and holds no activity and no device.\<close>

definition bare_client :: client where
  "bare_client =
     \<lparr> get_activity_name = (\<lambda>n. None), get_activity_id = (\<lambda>s. None),
       get_device_name = (\<lambda>n. None), get_device_id = (\<lambda>s. None),
       current_activity = (None, None), json_config = ''{}'',
       send_commands = (\<lambda>steps. []) \<rparr>"

text \<open>The example hub, answering every batch with one result whose code is zero.\<close>

definition reporting_client :: client where
  "reporting_client =
     example_client\<lparr>send_commands :=
       (\<lambda>steps. [\<lparr> res_command = ''Mute'', res_device = ''TV'', res_code = 0,
                     res_msg = ''OK'' \<rparr>])\<rparr>"

text \<open>
  A platform on which the example remote is active, a discovery of the same hub, and
  an empty platform configuration.
\<close>

definition known_platform :: platform where
  "known_platform =
     \<lparr> device_cache = Some [],
       DEVICES = [harmony_remote.truncate example_remote],
       added_entities = [harmony_remote.truncate example_remote],
       registered_services = 1 \<rparr>"

definition discovered_again :: config where
  "discovered_again =
     \<lparr> conf_name = Some ''Living Room'', conf_host = Some ''192.168.1.20'', conf_port = None,
       conf_activity = None, conf_delay_secs = None \<rparr>"

definition no_config :: config where
  "no_config =
     \<lparr> conf_name = None, conf_host = None, conf_port = None, conf_activity = None,
       conf_delay_secs = None \<rparr>"

section \<open>Properties\<close>

subsection \<open>Lemmas\<close>

lemmas py_defs = isdigit_def isdigit_char_def decimal_char_def py_int_def strip_def
  isspace_char_def truthy_def

lemmas config_defs = new_config_def new_activity_def schedule_update_ha_state_def
  write_config_file_def Let_def


lemma command_loop_Some:
  "command_loop device (Some d) command acc =
     Inr (acc @ concat (map (\<lambda>sc. SendCommandDevice device sc 0
                                  # (if d > 0 then [Delay d] else [])) command))"
  by (induction command arbitrary: acc) simp_all

lemma repeat_loop_Some:
  "repeat_loop k device (Some d) command acc =
     Inr (acc @ concat (replicate k
        (concat (map (\<lambda>sc. SendCommandDevice device sc 0
                             # (if d > 0 then [Delay d] else [])) command))))"
  by (induction k arbitrary: acc) (simp_all add: command_loop_Some)

lemma length_concat_replicate: "length (concat (replicate k xs)) = k * length xs"
  by (induction k) simp_all

lemma update_jobs_new_config [simp]: "update_jobs (new_config c io self) = update_jobs self + 2"
  by (cases io; cases "current_activity c") (simp_all add: config_defs)

lemma ha_states_new_config [simp]: "ha_states (new_config c io self) = ha_states self"
  by (cases io; cases "current_activity c") (simp_all add: config_defs)

lemma sleepers_new_config [simp]: "sleepers (new_config c io self) = sleepers self"
  by (cases io; cases "current_activity c") (simp_all add: config_defs)





text \<open>
  A discovery that is not dropped appends a remote whose (host, port) pair is new, so
  discoveries keep the pairs of \<^verbatim>\<open>DEVICES\<close> distinct.
\<close>

lemma discovery_keeps_hosts_distinct:
  assumes "nonempty d" and "distinct (known_hosts (DEVICES p))"
      and "async_setup_platform dds harmony_client conf_file p config (Some d) = Inr p'"
  shows "distinct (known_hosts (DEVICES p'))"
  using assms
  by (auto simp: async_setup_platform_def Let_def load_platform_def HarmonyRemote_init_def
        known_hosts_def
        split: prod.splits if_splits sum.splits ctor_outcome.splits)

subsection \<open>The command sequencer\<close>

text \<open>
  C1, as the code has it. For \<^verbatim>\<open>async_send_command\<close> with the command list
  \<open>[c1, c2]\<close>, a repeat count \<open>N \<ge> 1\<close>, a delay \<open>D > 0\<close> and a device that resolves,
  the list submitted to the client is \<open>N\<close> copies of send \<open>c1\<close>, pause \<open>D\<close>, send
  \<open>c2\<close>, pause \<open>D\<close>: its length is \<open>4N\<close>, and the pause after the last command of
  the last repeat is part of it.
\<close>

theorem send_command_steps:
  assumes "kw_device kwargs = Some device"
      and "find_device_id c device = Inr (Some device_id)"
      and "kw_num_repeats kwargs = Some N" and "1 \<le> N"
      and "(case kw_delay_secs kwargs of None \<Rightarrow> self_delay_secs self | Some d \<Rightarrow> Some d)
             = Some D"
      and "0 < D"
  shows "\<exists>steps.
           async_send_command c [c1, c2] kwargs self =
             Inr (self\<lparr>adapter_calls := adapter_calls self @ [SendCommands steps],
                       logged := logged self @ map failed_warning (send_commands c steps)\<rparr>)
           \<and> steps = concat (replicate (nat N)
                        [SendCommandDevice device c1 0, Delay D,
                         SendCommandDevice device c2 0, Delay D])
           \<and> int (length steps) = 4 * N"
  using assms
  by (simp add: async_send_command_def repeat_loop_Some length_concat_replicate)

theorem send_command_steps_witness:
  "async_send_command example_client [''VolumeUp'', ''Mute'']
     \<lparr>kw_device = Some ''TV'', kw_num_repeats = Some 2, kw_delay_secs = Some 1\<rparr>
     example_remote =
   Inr (example_remote
         \<lparr>adapter_calls :=
            [SendCommands
              [SendCommandDevice ''TV'' ''VolumeUp'' 0, Delay 1,
               SendCommandDevice ''TV'' ''Mute'' 0, Delay 1,
               SendCommandDevice ''TV'' ''VolumeUp'' 0, Delay 1,
               SendCommandDevice ''TV'' ''Mute'' 0, Delay 1]]\<rparr>)"
  using send_command_steps
          [of "\<lparr>kw_device = Some ''TV'', kw_num_repeats = Some 2, kw_delay_secs = Some 1\<rparr>"
              "''TV''" example_client "Hub 42" 2 example_remote 1 "''VolumeUp''" "''Mute''"]
  by (simp add: find_device_id_def py_defs example_client_def example_remote_def
        numeral_2_eq_2)

text \<open>
  C1 as stated fails: one repeat of two commands with a delay of one second submits
  four entries, not \<open>4 \<cdot> 1 - 1 = 3\<close>; the last entry is a pause.
\<close>

theorem one_repeat_submits_four_steps:
  "async_send_command example_client [''VolumeUp'', ''Mute'']
     \<lparr>kw_device = Some ''TV'', kw_num_repeats = Some 1, kw_delay_secs = Some 1\<rparr>
     example_remote =
   Inr (example_remote
         \<lparr>adapter_calls :=
            [SendCommands
              [SendCommandDevice ''TV'' ''VolumeUp'' 0, Delay 1,
               SendCommandDevice ''TV'' ''Mute'' 0, Delay 1]]\<rparr>)
   \<and> int (length [SendCommandDevice ''TV'' ''VolumeUp'' 0, Delay 1,
                   SendCommandDevice ''TV'' ''Mute'' 0, Delay 1]) \<noteq> 4 * 1 - 1"
  by (simp add: async_send_command_def find_device_id_def py_defs example_client_def
        example_remote_def)

text \<open>
  C7, as the code has it. When the device resolves and the repeat count and the delay
  are given, the batch is submitted in one \<^verbatim>\<open>send_commands\<close> call and one warning is
  logged for every result the client returns, in order and whatever its code: the
  component does not look at the code. Nothing is sent again and nothing is undone.
\<close>

theorem every_returned_result_is_logged:
  assumes "kw_device kwargs = Some device"
      and "find_device_id c device = Inr (Some device_id)"
      and "kw_num_repeats kwargs = Some N"
      and "(case kw_delay_secs kwargs of None \<Rightarrow> self_delay_secs self | Some d \<Rightarrow> Some d)
             = Some D"
  shows "\<exists>steps.
           async_send_command c command kwargs self =
             Inr (self\<lparr>adapter_calls := adapter_calls self @ [SendCommands steps],
                       logged := logged self @ map failed_warning (send_commands c steps)\<rparr>)"
proof -
  obtain steps where "repeat_loop (nat N) device (Some D) command [] = Inr steps"
    by (simp add: repeat_loop_Some)
  with assms have
    "async_send_command c command kwargs self =
       Inr (self\<lparr>adapter_calls := adapter_calls self @ [SendCommands steps],
                 logged := logged self @ map failed_warning (send_commands c steps)\<rparr>)"
    by (simp add: async_send_command_def)
  then show ?thesis by blast
qed

theorem every_returned_result_is_logged_witness:
  "\<exists>steps.
     async_send_command reporting_client [''Mute'']
       \<lparr>kw_device = Some ''TV'', kw_num_repeats = Some 1, kw_delay_secs = Some 0\<rparr>
       example_remote =
     Inr (example_remote
           \<lparr>adapter_calls := [SendCommands steps],
            logged := map failed_warning (send_commands reporting_client steps)\<rparr>)"
  using every_returned_result_is_logged
          [of "\<lparr>kw_device = Some ''TV'', kw_num_repeats = Some 1, kw_delay_secs = Some 0\<rparr>"
              "''TV''" reporting_client "Hub 42" 1 example_remote 0 "[''Mute'']"]
  by (simp add: find_device_id_def py_defs reporting_client_def example_client_def
        example_remote_def)

text \<open>
  C7 as stated fails: a result whose code is zero, returned by the client, is logged as
  a failed command like any other.
\<close>

theorem zero_code_result_is_logged:
  "async_send_command reporting_client [''Mute'']
     \<lparr>kw_device = Some ''TV'', kw_num_repeats = Some 1, kw_delay_secs = Some 0\<rparr>
     example_remote =
   Inr (example_remote
         \<lparr>adapter_calls := [SendCommands [SendCommandDevice ''TV'' ''Mute'' 0]],
          logged := [CommandFailed ''Mute'' ''TV'' 0 ''OK'']\<rparr>)"
  by (simp add: async_send_command_def find_device_id_def py_defs failed_warning_def
        reporting_client_def example_client_def example_remote_def)

subsection \<open>The name resolver\<close>




text \<open>
  C3, as the code has it. \<^verbatim>\<open>async_turn_on\<close> with the activity \<^verbatim>\<open>-1\<close>: when the
  client's ID-to-name lookup of minus one returns a non-empty name, the client receives
  \<^verbatim>\<open>start_activity('-1')\<close> and \<^verbatim>\<open>_state\<close> is set; otherwise \<^verbatim>\<open>-1\<close> is looked up as a
  name, and when that fails too the call is abandoned with an error.
  \<^verbatim>\<open>async_turn_off\<close> calls \<^verbatim>\<open>power_off()\<close>; \<^verbatim>\<open>async_turn_on\<close> never does.
\<close>

theorem turn_on_minus_one:
  "async_turn_on c (Some ''-1'') self =
     (if truthy (get_activity_name c (- 1))
      then Inr (self\<lparr>adapter_calls := adapter_calls self @ [StartActivity (Raw ''-1'')],
                     self_state := Some True\<rparr>)
      else (case get_activity_id c ''-1'' of
              None \<Rightarrow> Inr (self\<lparr>logged := logged self @ [ActivityInvalid ''-1'']\<rparr>)
            | Some i \<Rightarrow>
                Inr (self\<lparr>adapter_calls := adapter_calls self @ [StartActivity (Hub i)],
                          self_state := Some True\<rparr>)))
   \<and> async_turn_off self = self\<lparr>adapter_calls := adapter_calls self @ [PowerOff]\<rparr>"
  by (simp add: async_turn_on_def async_turn_off_def find_activity_id_def py_int_def strip_def
        isspace_char_def split: option.split)

text \<open>
  C3 as stated fails: with a configuration that is loaded and holds no entry for minus
  one, turning on with \<^verbatim>\<open>-1\<close> logs an error and calls nothing, while turning off calls
  \<^verbatim>\<open>power_off()\<close>; and where minus one is known, the call made is
  \<^verbatim>\<open>start_activity('-1')\<close>.
\<close>

theorem turn_on_minus_one_unresolved:
  "async_turn_on bare_client (Some ''-1'') example_remote =
     Inr (example_remote\<lparr>logged := [ActivityInvalid ''-1'']\<rparr>)
   \<and> async_turn_off example_remote = example_remote\<lparr>adapter_calls := [PowerOff]\<rparr>
   \<and> async_turn_on example_client (Some ''-1'') example_remote =
     Inr (example_remote\<lparr>adapter_calls := [StartActivity (Raw ''-1'')],
                         self_state := Some True\<rparr>)"
  by (simp add: async_turn_on_def async_turn_off_def find_activity_id_def py_defs
        bare_client_def example_client_def example_remote_def)

subsection \<open>The connection state tracker\<close>




text \<open>
  C8. A connect callback that finds the remote unavailable runs \<^verbatim>\<open>new_config\<close>, the
  handler of the configuration-changed callback, while the flag is still false, and sets
  the flag after it; one that finds the remote available changes nothing.
\<close>

theorem connected_refreshes_when_unavailable:
  "(if self_available self
    then got_connected c io self = self
    else got_connected c io self = (new_config c io self)\<lparr>self_available := True\<rparr>
         \<and> \<not> available (new_config c io self)
         \<and> available (got_connected c io self)
         \<and> writes (got_connected c io self) = writes self @ [(json_config c, io)])"
  by (cases io; cases "current_activity c")
     (simp_all add: got_connected_def config_defs available_def)

subsection \<open>Persistence\<close>

text \<open>
  C5. A configuration-changed callback makes exactly one attempt to write the file,
  with the client's configuration. When the attempt completes, the file holds that
  configuration. When it fails, one error is logged and nothing else differs from a
  run in which it completes: the write leaves the current activity, \<^verbatim>\<open>is_on\<close> and
  \<^verbatim>\<open>available\<close> as they were.
\<close>

theorem config_changed_writes_once:
  "writes (new_config c io self) = writes self @ [(json_config c, io)]
   \<and> config_file (new_config c io self) =
       (case io of Completes \<Rightarrow> Some (json_config c)
        | OpenFails exc \<Rightarrow> config_file self
        | WriteFails n exc \<Rightarrow> Some (take n (json_config c)))
   \<and> logged (new_config c io self) =
       logged self @
       (case io of Completes \<Rightarrow> []
        | OpenFails exc \<Rightarrow> [UnableToWrite (self_config_path self) exc]
        | WriteFails n exc \<Rightarrow> [UnableToWrite (self_config_path self) exc])
   \<and> new_config c io self =
       (new_config c Completes self)
         \<lparr>writes := writes (new_config c io self),
          config_file := config_file (new_config c io self),
          logged := logged (new_config c io self)\<rparr>
   \<and> self_current_activity (write_config_file c io self) = self_current_activity self
   \<and> is_on (write_config_file c io self) = is_on self
   \<and> available (write_config_file c io self) = available self"
  by (cases io; cases "current_activity c")
     (simp_all add: config_defs is_on_def available_def)

subsection \<open>Discovery\<close>

text \<open>
  C6. A discovery whose host, with the port taken from the cached configuration of the
  same name or the default, is the (host, port) pair of a remote in \<^verbatim>\<open>DEVICES\<close> is
  dropped: the call returns without an error, whatever the constructor would do, and
  \<^verbatim>\<open>DEVICES\<close>, the added entities and the registered services are as before.
\<close>

theorem known_hub_discovery_dropped:
  assumes "nonempty d"
      and "discovery_override dds (case device_cache p of None \<Rightarrow> [] | Some cs \<Rightarrow> cs) d
             = (activity, delay_secs, port)"
      and "(conf_host d, port) \<in> set (known_hosts (DEVICES p))"
  shows "async_setup_platform dds harmony_client conf_file p config (Some d) =
           Inr (p\<lparr>device_cache :=
                     Some (case device_cache p of None \<Rightarrow> [] | Some cs \<Rightarrow> cs)\<rparr>)"
  using assms by (simp add: async_setup_platform_def Let_def)

theorem known_hub_discovery_dropped_witness:
  "async_setup_platform (2 / 5) Built (\<lambda>name. Inr ''harmony_living_room.conf'')
     known_platform no_config (Some discovered_again) = Inr known_platform"
  using known_hub_discovery_dropped [of discovered_again "2 / 5" known_platform None
          "Some (2 / 5)" "Some 8088" Built "\<lambda>name. Inr ''harmony_living_room.conf''"
          no_config]
  by (simp add: nonempty_def discovery_override_def DEFAULT_PORT_def known_hosts_def
        known_platform_def discovered_again_def example_remote_def
        harmony_remote.truncate_def)

subsection \<open>Derived state\<close>


text \<open>
  C9. In every state of the remote, \<^verbatim>\<open>is_on\<close> is true exactly when the current
  activity name is known and is not \<^verbatim>\<open>PowerOff\<close>; it is false exactly when the name is
  \<^verbatim>\<open>None\<close> or \<^verbatim>\<open>PowerOff\<close>.
\<close>

theorem is_on_iff_known_and_not_PowerOff:
  "is_on self = (\<exists>n. self_current_activity self = Some n \<and> n \<noteq> ''PowerOff'')
   \<and> (is_on self = False) =
       (self_current_activity self = None \<or> self_current_activity self = Some ''PowerOff'')"
  by (cases "self_current_activity self") (auto simp: is_on_def)

text \<open>
  C10. A remote that has just been constructed reports \<^verbatim>\<open>available\<close> true: the
  constructor sets the flag before any callback of the client has been delivered.
\<close>

theorem fresh_remote_is_available:
  "HarmonyRemote_init Built name host port activity out_path delay_secs = Inr self
   \<Longrightarrow> available self"
  by (auto simp: HarmonyRemote_init_def available_def)

theorem fresh_remote_is_available_witness:
  "available \<lparr> self_name = Some ''Living Room'', self_host = Some ''192.168.1.20'',
               self_port = Some 8088, self_state = None, self_current_activity = None,
               self_default_activity = None, self_config_path = ''harmony_living_room.conf'',
               self_delay_secs = Some (2 / 5), self_available = True \<rparr>"
  by (rule fresh_remote_is_available
        [of "Some ''Living Room''" "Some ''192.168.1.20''" "Some 8088" None
            "''harmony_living_room.conf''" "Some (2 / 5)"])
     (simp add: HarmonyRemote_init_def)

end
